theory Spec2Isabelle
  imports Main "HOL-Library.Word"
begin

section \<open>Data model\<close>

text \<open>
  The module \<^verbatim>\<open>lib/content/read.js\<close> gives read access to a content-addressable
  store. A digest entry is one hash of an integrity descriptor; a parsed descriptor maps
  each algorithm name to the ordered list of its entries (the key order of the JavaScript
  object is the order of the association list).
\<close>

type_synonym bytes = "8 word list"

record hash =
  algorithm :: string
  digest :: string
  options :: "string list"

type_synonym integrity = "(string \<times> hash list) list"

text \<open>
  What a caller may pass as \<^verbatim>\<open>integrity\<close>: nothing, a string, one digest entry, or a
  parsed descriptor.
\<close>

datatype sri_input =
  SriMissing
  | SriString string
  | SriHash hash
  | SriIntegrity integrity

text \<open>
  The value of the \<^verbatim>\<open>size\<close> option, with its JavaScript type. A number is an
  integer here: the option is only compared with the length of a buffer, and a number
  that is not integral differs from every length, as an integer other than the length
  does.
\<close>

datatype js_opt =
  OptUndefined
  | OptNull
  | OptBool bool
  | OptNumber int
  | OptString string

record read_opts =
  size_opt :: js_opt

text \<open>
  An \<^verbatim>\<open>Error\<close> object: its message, its \<^verbatim>\<open>code\<close> (absent on a plain error) and the
  properties that \<^verbatim>\<open>sizeError\<close> and \<^verbatim>\<open>integrityError\<close> attach.
\<close>

record js_error =
  message :: string
  code :: "string option"
  expected :: "js_opt option"
  found :: "nat option"
  err_sri :: "hash option"
  err_path :: "string option"

record stats =
  st_size :: nat

text \<open>
  The values that the access functions of this module resolve to: \<^verbatim>\<open>undefined\<close>
  (a finished copy), a boolean, a buffer, the object \<^verbatim>\<open>{ size, sri, stat }\<close> of the
  existence check and the object \<^verbatim>\<open>{ cpath, sri, stat }\<close> of the streaming read.
\<close>

datatype js_value =
  JUndefined
  | JBool bool
  | JBuffer bytes
  | JContent nat hash stats
  | JResolved string hash stats

text \<open>
  A settled outcome: \<open>Inl\<close> is a thrown error or a rejected promise, \<open>Inr\<close> a returned
  or resolved value. In the array that \<^verbatim>\<open>Promise.all\<close> resolves to, \<open>Inl\<close> is an element
  that is an instance of \<^verbatim>\<open>Error\<close>.
\<close>

type_synonym outcome = "js_error + js_value"

text \<open>
  An access function \<^verbatim>\<open>fn(cpath, sri)\<close> runs on a state \<open>'s\<close> (the file system, for
  the operations of this module) and gives its outcome and the new state.
\<close>

type_synonym 's access_fn = "string \<Rightarrow> hash \<Rightarrow> 's \<Rightarrow> outcome \<times> 's"

section \<open>Collaborators\<close>

text \<open>
  Modelled from the spec: the integrity descriptor library (\<^verbatim>\<open>ssri\<close>) and the path
  mapper (\<^verbatim>\<open>./path\<close>) are not part of the source file. They are parameters:
  the parser of textual descriptors, the algorithm preference, the check of a buffer
  against a digest entry, the string forms of an entry and of a descriptor, the verdict
  of the verifying stream at the end of the data, and the path mapper.
\<close>

record env =
  parse_string :: "string \<Rightarrow> js_error + integrity"
  pick :: "string \<Rightarrow> string \<Rightarrow> string"
  checkData :: "bytes \<Rightarrow> hash \<Rightarrow> bool"
  hash_toString :: "hash \<Rightarrow> string"
  sri_toString :: "integrity \<Rightarrow> string"
  integrityStream :: "hash \<Rightarrow> js_opt \<Rightarrow> bytes \<Rightarrow> js_error option"
  contentPath :: "string \<Rightarrow> hash \<Rightarrow> string"

definition Error :: "string \<Rightarrow> js_error" where
  "Error msg =
     \<lparr>message = msg, code = None, expected = None, found = None,
      err_sri = None, err_path = None\<rparr>"

text \<open>
  The \<^verbatim>\<open>TypeError\<close> of a property access on \<^verbatim>\<open>undefined\<close>
  (\<^verbatim>\<open>digests.length\<close>, \<^verbatim>\<open>r.code\<close>, the path of a missing entry).
\<close>

definition type_error :: js_error where
  "type_error = Error ''Cannot read property of undefined''"

text \<open>
  Modelled from the spec: \<^verbatim>\<open>ssri.parse\<close>. A textual descriptor goes through the
  parser, which fails on a malformed one; a digest entry is its own single-entry
  descriptor; a parsed descriptor is taken as it is; \<^verbatim>\<open>undefined\<close> has no properties.
\<close>

definition parse :: "env \<Rightarrow> sri_input \<Rightarrow> js_error + integrity" where
  "parse e i =
     (case i of
        SriMissing \<Rightarrow> Inl type_error
      | SriString s \<Rightarrow> parse_string e s
      | SriHash h \<Rightarrow> Inr [(algorithm h, [h])]
      | SriIntegrity x \<Rightarrow> Inr x)"

text \<open>
  Modelled from the spec: \<^verbatim>\<open>sri.pickAlgorithm()\<close>. It fails on a descriptor with no
  algorithm; otherwise it walks the algorithm names in order and keeps the preferred one
  of each pair (the preference may answer with the empty string, which keeps the
  current choice).
\<close>

definition pickAlgorithm :: "env \<Rightarrow> integrity \<Rightarrow> js_error + string" where
  "pickAlgorithm e sri =
     (case map fst sri of
        [] \<Rightarrow> Inl (Error (''No algorithms available for '' @ sri_toString e sri))
      | k # ks \<Rightarrow>
          Inr (foldl (\<lambda>acc algo. let p = pick e acc algo in if p = [] then acc else p) k ks))"

section \<open>The blocking resolver\<close>

text \<open>
  \<^verbatim>\<open>withContentSriSync\<close> (lines 208-230). \<open>sync_loop\<close> is its \<^verbatim>\<open>for\<close> loop over the
  entries, with the variable \<^verbatim>\<open>lastErr\<close> as an argument: the first entry that does not
  throw returns from the whole function; after the loop the last error is thrown.
\<close>

function withContentSriSync ::
    "env \<Rightarrow> string \<Rightarrow> sri_input \<Rightarrow> 's access_fn \<Rightarrow> 's \<Rightarrow> outcome \<times> 's"
  and sync_loop ::
    "env \<Rightarrow> string \<Rightarrow> hash list \<Rightarrow> 's access_fn \<Rightarrow> js_error option \<Rightarrow> 's \<Rightarrow> outcome \<times> 's"
where
  "withContentSriSync e cache i fn s =
     (case parse e i of
        Inl err \<Rightarrow> (Inl err, s)
      | Inr sri \<Rightarrow>
          (case pickAlgorithm e sri of
             Inl err \<Rightarrow> (Inl err, s)
           | Inr algo \<Rightarrow>
               (case map_of sri algo of
                  None \<Rightarrow> (Inl type_error, s)
                | Some digests \<Rightarrow>
                    if length digests \<le> 1 then
                      (case digests of
                         [] \<Rightarrow> (Inl type_error, s)
                       | d # _ \<Rightarrow> fn (contentPath e cache d) d s)
                    else sync_loop e cache digests fn None s)))"
| "sync_loop e cache [] fn lastErr s =
     (case lastErr of
        Some err \<Rightarrow> (Inl err, s)
      | None \<Rightarrow> (Inr JUndefined, s))"
| "sync_loop e cache (meta # metas) fn lastErr s =
     (case withContentSriSync e cache (SriHash meta) fn s of
        (Inr v, s') \<Rightarrow> (Inr v, s')
      | (Inl err, s') \<Rightarrow> sync_loop e cache metas fn (Some err) s')"
  by pat_completeness auto

termination
  by (relation "measures
        [\<lambda>x. case x of
                Inl (_, _, i, _, _) \<Rightarrow> (case i of SriHash _ \<Rightarrow> 0 | _ \<Rightarrow> 2)
              | Inr _ \<Rightarrow> Suc 0,
         \<lambda>x. case x of
                Inl _ \<Rightarrow> 0
              | Inr (_, _, ms, _, _, _) \<Rightarrow> length ms]")
     (auto simp: parse_def split: sri_input.splits if_splits)

section \<open>The non-blocking resolver\<close>

text \<open>
  The handler that line 165 attaches to each candidate: a rejection becomes a value of
  the result array, and a rejection with code \<^verbatim>\<open>ENOENT\<close> is replaced by a new error
  that names the whole descriptor.
\<close>

definition catch_candidate :: "env \<Rightarrow> integrity \<Rightarrow> outcome \<Rightarrow> outcome" where
  "catch_candidate e sri r =
     (case r of
        Inr v \<Rightarrow> Inr v
      | Inl err \<Rightarrow>
          if code err = Some ''ENOENT''
          then Inl ((Error (''No matching content found for '' @ sri_toString e sri))
                      \<lparr>code := Some ''ENOENT''\<rparr>)
          else Inl err)"

text \<open>Truthiness of a resolved value (\<^verbatim>\<open>if (result)\<close>, line 178).\<close>

fun truthy :: "js_value \<Rightarrow> bool" where
  "truthy JUndefined = False"
| "truthy (JBool b) = b"
| "truthy (JBuffer _) = True"
| "truthy (JContent _ _ _) = True"
| "truthy (JResolved _ _ _) = True"

text \<open>
  \<^verbatim>\<open>results.find((r) => r.code === 'ENOENT')\<close> (line 183): the elements are visited in
  order; reading \<^verbatim>\<open>code\<close> of \<^verbatim>\<open>undefined\<close> throws, every other value has no such property.
  \<open>Inl\<close> is the thrown \<^verbatim>\<open>TypeError\<close>, \<open>Inr\<close> what \<^verbatim>\<open>find\<close> returns.
\<close>

fun find_enoent :: "outcome list \<Rightarrow> js_error + js_error option" where
  "find_enoent [] = Inr None"
| "find_enoent (Inl err # rs) =
     (if code err = Some ''ENOENT'' then Inr (Some err) else find_enoent rs)"
| "find_enoent (Inr v # rs) =
     (if v = JUndefined then Inl type_error else find_enoent rs)"

text \<open>The callback of \<^verbatim>\<open>.then((results) => ...)\<close>, lines 175-193.\<close>

definition then_results :: "outcome list \<Rightarrow> outcome" where
  "then_results results =
     (case (case find (\<lambda>r. \<not> isl r) results of
              Some (Inr v) \<Rightarrow> if truthy v then Some v else None
            | _ \<Rightarrow> None) of
        Some v \<Rightarrow> Inr v
      | None \<Rightarrow>
          (case find_enoent results of
             Inl thrown \<Rightarrow> Inl thrown
           | Inr (Some enoentError) \<Rightarrow> Inl enoentError
           | Inr None \<Rightarrow>
               (case find isl results of
                  Some (Inl genericError) \<Rightarrow> Inl genericError
                | _ \<Rightarrow> Inr JUndefined)))"

text \<open>
  \<^verbatim>\<open>withContentSri\<close> (lines 149-206). \<open>tryFn\<close> is the inner function: \<open>Inl\<close> is an
  exception thrown before a promise exists, \<open>Inr\<close> the settled promise it returns.
  \<open>promise_all\<close> is \<^verbatim>\<open>Promise.all\<close> over the mapped entries: every candidate is started,
  in entry order, and the array of all settled candidates is the result; no candidate
  promise rejects, since each has the handler \<open>catch_candidate\<close>.
  \<open>withContentSri\<close> turns an exception of \<open>tryFn\<close> into a rejection.
\<close>

function withContentSri ::
    "env \<Rightarrow> string \<Rightarrow> sri_input \<Rightarrow> 's access_fn \<Rightarrow> 's \<Rightarrow> outcome \<times> 's"
  and tryFn ::
    "env \<Rightarrow> string \<Rightarrow> sri_input \<Rightarrow> 's access_fn \<Rightarrow> 's \<Rightarrow> js_error + outcome \<times> 's"
  and promise_all ::
    "env \<Rightarrow> string \<Rightarrow> integrity \<Rightarrow> hash list \<Rightarrow> 's access_fn \<Rightarrow> 's \<Rightarrow> outcome list \<times> 's"
where
  "withContentSri e cache i fn s =
     (case tryFn e cache i fn s of
        Inl err \<Rightarrow> (Inl err, s)
      | Inr p \<Rightarrow> p)"
| "tryFn e cache i fn s =
     (case parse e i of
        Inl err \<Rightarrow> Inl err
      | Inr sri \<Rightarrow>
          (case pickAlgorithm e sri of
             Inl err \<Rightarrow> Inl err
           | Inr algo \<Rightarrow>
               (case map_of sri algo of
                  None \<Rightarrow> Inl type_error
                | Some digests \<Rightarrow>
                    if length digests \<le> 1 then
                      (case digests of
                         [] \<Rightarrow> Inl type_error
                       | d # _ \<Rightarrow> Inr (fn (contentPath e cache d) d s))
                    else
                      Inr (case promise_all e cache sri digests fn s of
                             (results, s') \<Rightarrow> (then_results results, s')))))"
| "promise_all e cache sri [] fn s = ([], s)"
| "promise_all e cache sri (meta # metas) fn s =
     (case withContentSri e cache (SriHash meta) fn s of
        (r, s') \<Rightarrow>
          (case promise_all e cache sri metas fn s' of
             (rs, s'') \<Rightarrow> (catch_candidate e sri r # rs, s'')))"
  by pat_completeness auto

termination
  by (relation "measures
        [\<lambda>x. case x of
                Inl (_, _, i, _, _) \<Rightarrow> (case i of SriHash _ \<Rightarrow> 1 | _ \<Rightarrow> 5)
              | Inr (Inl (_, _, i, _, _)) \<Rightarrow> (case i of SriHash _ \<Rightarrow> 0 | _ \<Rightarrow> 4)
              | Inr (Inr _) \<Rightarrow> 2,
         \<lambda>x. case x of
                Inr (Inr (_, _, _, ms, _, _)) \<Rightarrow> length ms
              | _ \<Rightarrow> 0]")
     (auto simp: parse_def split: sri_input.splits if_splits)

section \<open>File system primitives\<close>

text \<open>
  Modelled from the spec: the file system primitives of the runtime. The state of the
  file system gives, for each path, what a stat and what a whole-file read answer (a
  directory has a stat and no readable content), and the error, if any, that writing to
  that path raises. A copy reads the source, writes the destination and resolves to
  \<^verbatim>\<open>undefined\<close>.
\<close>

record filesystem =
  lstat_result :: "string \<Rightarrow> js_error + stats"
  file_result :: "string \<Rightarrow> js_error + bytes"
  write_error :: "string \<Rightarrow> js_error option"

definition copyFile :: "string \<Rightarrow> string \<Rightarrow> filesystem \<Rightarrow> outcome \<times> filesystem" where
  "copyFile src dest fs =
     (case file_result fs src of
        Inl err \<Rightarrow> (Inl err, fs)
      | Inr data \<Rightarrow>
          (case write_error fs dest of
             Some err \<Rightarrow> (Inl err, fs)
           | None \<Rightarrow>
               (Inr JUndefined,
                fs\<lparr>lstat_result := (lstat_result fs)(dest := Inr \<lparr>st_size = length data\<rparr>),
                   file_result := (file_result fs)(dest := Inr data)\<rparr>)))"

section \<open>Error classifiers\<close>

fun show_nat :: "nat \<Rightarrow> string" where
  "show_nat n =
     (if n < 10 then [char_of (48 + n)]
      else show_nat (n div 10) @ [char_of (48 + n mod 10)])"

declare show_nat.simps [simp del]

text \<open>
  The string that a template literal makes of a value. An integer is printed with its
  decimal digits, which is what the runtime prints below \<open>10\<^sup>2\<^sup>1\<close>; from there on the
  runtime uses the exponent form. Only the text of the message of \<^verbatim>\<open>sizeError\<close>
  depends on it.
\<close>

fun js_toString :: "js_opt \<Rightarrow> string" where
  "js_toString OptUndefined = ''undefined''"
| "js_toString OptNull = ''null''"
| "js_toString (OptBool b) = (if b then ''true'' else ''false'')"
| "js_toString (OptNumber n) =
     (if n < 0 then ''-'' @ show_nat (nat (- n)) else show_nat (nat n))"
| "js_toString (OptString s) = s"

fun typeof :: "js_opt \<Rightarrow> string" where
  "typeof OptUndefined = ''undefined''"
| "typeof OptNull = ''object''"
| "typeof (OptBool _) = ''boolean''"
| "typeof (OptNumber _) = ''number''"
| "typeof (OptString _) = ''string''"

definition sizeError :: "js_opt \<Rightarrow> nat \<Rightarrow> js_error" where
  "sizeError expected' found' =
     (Error (''Bad data size: expected inserted data to be '' @ js_toString expected'
             @ '' bytes, but got '' @ show_nat found' @ '' instead''))
       \<lparr>code := Some ''EBADSIZE'', expected := Some expected', found := Some found'\<rparr>"

definition integrityError :: "env \<Rightarrow> hash \<Rightarrow> string \<Rightarrow> js_error" where
  "integrityError e sri path =
     (Error (''Integrity verification failed for '' @ hash_toString e sri
             @ '' ('' @ path @ '')''))
       \<lparr>code := Some ''EINTEGRITY'', err_sri := Some sri, err_path := Some path\<rparr>"

section \<open>Buffered read\<close>

text \<open>
  \<open>read_access\<close> is the arrow function that \<^verbatim>\<open>read\<close> passes to the resolver (lines
  23-35), \<open>readSync_access\<close> the one of \<^verbatim>\<open>readSync\<close> (lines 42-53). The length of the
  buffer is compared to the option with \<^verbatim>\<open>!==\<close>, after the test of its type.
\<close>

definition read_access :: "env \<Rightarrow> read_opts \<Rightarrow> filesystem access_fn" where
  "read_access e opts cpath sri fs =
     (case file_result fs cpath of
        Inl err \<Rightarrow> (Inl err, fs)
      | Inr data \<Rightarrow>
          if typeof (size_opt opts) = ''number''
             \<and> size_opt opts \<noteq> OptNumber (int (length data))
          then (Inl (sizeError (size_opt opts) (length data)), fs)
          else if checkData e data sri then (Inr (JBuffer data), fs)
          else (Inl (integrityError e sri cpath), fs))"

definition read :: "env \<Rightarrow> string \<Rightarrow> sri_input \<Rightarrow> read_opts \<Rightarrow> filesystem \<Rightarrow> outcome \<times> filesystem" where
  "read e cache i opts fs = withContentSri e cache i (read_access e opts) fs"

definition readSync_access :: "env \<Rightarrow> read_opts \<Rightarrow> filesystem access_fn" where
  "readSync_access e opts cpath sri fs =
     (case file_result fs cpath of
        Inl err \<Rightarrow> (Inl err, fs)
      | Inr data \<Rightarrow>
          if typeof (size_opt opts) = ''number''
             \<and> size_opt opts \<noteq> OptNumber (int (length data))
          then (Inl (sizeError (size_opt opts) (length data)), fs)
          else if checkData e data sri then (Inr (JBuffer data), fs)
          else (Inl (integrityError e sri cpath), fs))"

definition readSync :: "env \<Rightarrow> string \<Rightarrow> sri_input \<Rightarrow> read_opts \<Rightarrow> filesystem \<Rightarrow> outcome \<times> filesystem" where
  "readSync e cache i opts fs = withContentSriSync e cache i (readSync_access e opts) fs"

section \<open>Streaming read\<close>

text \<open>
  What the returned stream emits afterwards. \<^verbatim>\<open>readStream\<close> (lines 59-79) creates the
  stream, starts the resolution and returns the stream: \<open>Inr\<close> is the returned stream,
  given by the events it will emit, \<open>Inl\<close> would be an exception thrown by the call.
\<close>

datatype stream_event =
  Data bytes
  | End
  | ErrorEvent js_error

definition readStream_access :: "filesystem access_fn" where
  "readStream_access cpath sri fs =
     (case lstat_result fs cpath of
        Inl err \<Rightarrow> (Inl err, fs)
      | Inr stat \<Rightarrow> (Inr (JResolved cpath sri stat), fs))"

text \<open>
  The pipeline of lines 66-73: the file is read into the verifying transform, which
  passes the data on to the stream and gives its verdict at the end. The second component
  is the error the pipeline fails with, after the events already passed on. The content
  of the file is one data event; for an empty file this is the event with no bytes, where
  the runtime emits no data event at all.
\<close>

definition pipe ::
    "env \<Rightarrow> read_opts \<Rightarrow> string \<Rightarrow> hash \<Rightarrow> filesystem \<Rightarrow> stream_event list \<times> js_error option" where
  "pipe e opts cpath sri fs =
     (case file_result fs cpath of
        Inl err \<Rightarrow> ([], Some err)
      | Inr data \<Rightarrow>
          (case integrityStream e sri (size_opt opts) data of
             Some err \<Rightarrow> ([Data data], Some err)
           | None \<Rightarrow> ([Data data, End], None)))"

definition readStream ::
    "env \<Rightarrow> string \<Rightarrow> sri_input \<Rightarrow> read_opts \<Rightarrow> filesystem \<Rightarrow> js_error + stream_event list" where
  "readStream e cache i opts fs =
     Inr (case fst (withContentSri e cache i readStream_access fs) of
            Inl err \<Rightarrow> [ErrorEvent err]
          | Inr (JResolved cpath sri stat) \<Rightarrow>
              (case pipe e opts cpath sri fs of
                 (evs, Some err) \<Rightarrow> evs @ [ErrorEvent err]
               | (evs, None) \<Rightarrow> evs)
          | Inr _ \<Rightarrow> [ErrorEvent type_error])"

section \<open>Copy\<close>

definition copy ::
    "env \<Rightarrow> string \<Rightarrow> sri_input \<Rightarrow> string \<Rightarrow> read_opts \<Rightarrow> filesystem \<Rightarrow> outcome \<times> filesystem" where
  "copy e cache i dest opts fs =
     withContentSri e cache i (\<lambda>cpath sri. copyFile cpath dest) fs"



section \<open>Existence check\<close>

text \<open>\<^verbatim>\<open>!integrity\<close>: nothing and the empty string are falsy.\<close>

fun integrity_truthy :: "sri_input \<Rightarrow> bool" where
  "integrity_truthy SriMissing = False"
| "integrity_truthy (SriString s) = (s \<noteq> [])"
| "integrity_truthy (SriHash _) = True"
| "integrity_truthy (SriIntegrity _) = True"

definition hasContent_access :: "filesystem access_fn" where
  "hasContent_access cpath sri fs =
     (case lstat_result fs cpath of
        Inl err \<Rightarrow> (Inl err, fs)
      | Inr stat \<Rightarrow> (Inr (JContent (st_size stat) sri stat), fs))"

text \<open>
  \<^verbatim>\<open>hasContent\<close> (lines 104-122): the handler is attached to the promise of the
  resolver. A handler that ends without \<^verbatim>\<open>return\<close> or \<^verbatim>\<open>throw\<close> resolves to
  \<^verbatim>\<open>undefined\<close>.
\<close>

definition hasContent ::
    "env \<Rightarrow> string \<Rightarrow> string \<Rightarrow> sri_input \<Rightarrow> filesystem \<Rightarrow> outcome \<times> filesystem" where
  "hasContent e platform cache i fs =
     (if \<not> integrity_truthy i then (Inr (JBool False), fs)
      else
        (case withContentSri e cache i hasContent_access fs of
           (Inr v, fs') \<Rightarrow> (Inr v, fs')
         | (Inl err, fs') \<Rightarrow>
             if code err = Some ''ENOENT'' then (Inr (JBool False), fs')
             else if code err = Some ''EPERM'' then
               (if platform \<noteq> ''win32'' then (Inl err, fs')
                else (Inr (JBool False), fs'))
             else (Inr JUndefined, fs')))"

text \<open>
  \<^verbatim>\<open>hasContentSync\<close> (lines 126-147): the \<^verbatim>\<open>try\<close> is inside the access function, around
  the stat.
\<close>

definition hasContentSync_access :: "string \<Rightarrow> filesystem access_fn" where
  "hasContentSync_access platform cpath sri fs =
     (case lstat_result fs cpath of
        Inr stat \<Rightarrow> (Inr (JContent (st_size stat) sri stat), fs)
      | Inl err \<Rightarrow>
          if code err = Some ''ENOENT'' then (Inr (JBool False), fs)
          else if code err = Some ''EPERM'' then
            (if platform \<noteq> ''win32'' then (Inl err, fs)
             else (Inr (JBool False), fs))
          else (Inr JUndefined, fs))"

definition hasContentSync ::
    "env \<Rightarrow> string \<Rightarrow> string \<Rightarrow> sri_input \<Rightarrow> filesystem \<Rightarrow> outcome \<times> filesystem" where
  "hasContentSync e platform cache i fs =
     (if \<not> integrity_truthy i then (Inr (JBool False), fs)
      else withContentSriSync e cache i (hasContentSync_access platform) fs)"

section \<open>Observing the calls of an access function\<close>

text \<open>
  To state in which order a resolver calls its access function, the state is the list of
  the calls made so far: \<open>traced f\<close> answers as \<open>f\<close> does and appends its arguments.
\<close>

definition traced :: "(string \<Rightarrow> hash \<Rightarrow> outcome) \<Rightarrow> (string \<times> hash) list access_fn" where
  "traced f cpath sri calls = (f cpath sri, calls @ [(cpath, sri)])"

text \<open>
  An access function preserves a property \<open>I\<close> of the state and raises only errors with
  the property \<open>P\<close>.
\<close>

definition preserves :: "('s \<Rightarrow> bool) \<Rightarrow> (js_error \<Rightarrow> bool) \<Rightarrow> 's access_fn \<Rightarrow> bool" where
  "preserves I P fn \<longleftrightarrow>
     (\<forall>cpath sri s r s'. I s \<longrightarrow> fn cpath sri s = (r, s') \<longrightarrow>
        I s' \<and> (\<forall>err. r = Inl err \<longrightarrow> P err))"

abbreviation candidate :: "env \<Rightarrow> string \<Rightarrow> hash \<Rightarrow> string \<times> hash" where
  "candidate e cache h \<equiv> (contentPath e cache h, h)"

section \<open>An example store\<close>

text \<open>
  Two digest entries of one algorithm, collaborators that accept the bytes 1, 2, 3 as
  the content of any entry, and stores under the root \<^verbatim>\<open>/c\<close> in which the first entry
  holds the given bytes and the second entry is missing.
\<close>

definition hA :: hash where
  "hA = \<lparr>algorithm = ''sha512'', digest = ''aaaa'', options = []\<rparr>"

definition hB :: hash where
  "hB = \<lparr>algorithm = ''sha512'', digest = ''bbbb'', options = []\<rparr>"

definition ex_two :: sri_input where
  "ex_two = SriIntegrity [(''sha512'', [hA, hB])]"

definition ex_env :: env where
  "ex_env =
     \<lparr>parse_string = (\<lambda>s. Inl (Error ''malformed integrity'')),
      pick = (\<lambda>a b. b),
      checkData = (\<lambda>data h. data = [1, 2, 3]),
      hash_toString = (\<lambda>h. algorithm h @ ''-'' @ digest h),
      sri_toString =
        (\<lambda>sri. tl (concat (map (\<lambda>(a, hs). concat (map (\<lambda>h. '' '' @ algorithm h @ ''-'' @ digest h) hs)) sri))),
      integrityStream =
        (\<lambda>h sz data. if data = [1, 2, 3] then None
                      else Some ((Error ''stream verification failed'')\<lparr>code := Some ''EINTEGRITY''\<rparr>)),
      contentPath = (\<lambda>cache h. cache @ ''/'' @ digest h)\<rparr>"

definition enoent :: js_error where
  "enoent = (Error ''no such file or directory'')\<lparr>code := Some ''ENOENT''\<rparr>"

definition eacces :: js_error where
  "eacces = (Error ''permission denied'')\<lparr>code := Some ''EACCES''\<rparr>"

definition eperm :: js_error where
  "eperm = (Error ''operation not permitted'')\<lparr>code := Some ''EPERM''\<rparr>"

definition store_with :: "bytes \<Rightarrow> filesystem" where
  "store_with data =
     \<lparr>lstat_result = (\<lambda>p. if p = ''/c/aaaa'' then Inr \<lparr>st_size = length data\<rparr> else Inl enoent),
      file_result = (\<lambda>p. if p = ''/c/aaaa'' then Inr data else Inl enoent),
      write_error = (\<lambda>p. None)\<rparr>"

text \<open>A store in which both entries are present, with the given bytes.\<close>

definition store_both :: "bytes \<Rightarrow> bytes \<Rightarrow> filesystem" where
  "store_both a b =
     \<lparr>lstat_result =
        (\<lambda>p. if p = ''/c/aaaa'' then Inr \<lparr>st_size = length a\<rparr>
             else if p = ''/c/bbbb'' then Inr \<lparr>st_size = length b\<rparr> else Inl enoent),
      file_result =
        (\<lambda>p. if p = ''/c/aaaa'' then Inr a else if p = ''/c/bbbb'' then Inr b else Inl enoent),
      write_error = (\<lambda>p. None)\<rparr>"

text \<open>A store in which every stat and every read fails with the given error.\<close>

definition failing_store :: "js_error \<Rightarrow> filesystem" where
  "failing_store err =
     \<lparr>lstat_result = (\<lambda>p. Inl err), file_result = (\<lambda>p. Inl err), write_error = (\<lambda>p. None)\<rparr>"

section \<open>Unfolding the resolvers\<close>

lemma pickAlgorithm_single [simp]: "pickAlgorithm e [(a, ds)] = Inr a"
  by (simp add: pickAlgorithm_def)

text \<open>A digest entry resolves as its own single-entry descriptor.\<close>

lemma withContentSriSync_hash [simp]:
  "withContentSriSync e cache (SriHash h) fn s = fn (contentPath e cache h) h s"
  by (simp add: parse_def)

lemma withContentSri_hash [simp]:
  "withContentSri e cache (SriHash h) fn s = fn (contentPath e cache h) h s"
  by (simp add: parse_def)

lemma withContentSriSync_single:
  assumes "parse e i = Inr sri" "pickAlgorithm e sri = Inr algo" "map_of sri algo = Some [d]"
  shows "withContentSriSync e cache i fn s = fn (contentPath e cache d) d s"
  using assms by simp

lemma withContentSri_single:
  assumes "parse e i = Inr sri" "pickAlgorithm e sri = Inr algo" "map_of sri algo = Some [d]"
  shows "withContentSri e cache i fn s = fn (contentPath e cache d) d s"
  using assms by simp

lemma withContentSriSync_multi:
  assumes "parse e i = Inr sri" "pickAlgorithm e sri = Inr algo" "map_of sri algo = Some digests"
    "1 < length digests"
  shows "withContentSriSync e cache i fn s = sync_loop e cache digests fn None s"
  using assms by simp

lemma withContentSri_multi:
  assumes "parse e i = Inr sri" "pickAlgorithm e sri = Inr algo" "map_of sri algo = Some digests"
    "1 < length digests"
  shows "withContentSri e cache i fn s =
    (case promise_all e cache sri digests fn s of (results, s') \<Rightarrow> (then_results results, s'))"
  using assms by simp

lemma withContentSri_parse_error:
  "parse e i = Inl err \<Longrightarrow> withContentSri e cache i fn s = (Inl err, s)"
  by simp

declare withContentSriSync.simps [simp del]
declare withContentSri.simps [simp del]
declare tryFn.simps [simp del]

section \<open>The candidates of a descriptor with several entries\<close>

lemma sync_loop_success:
  assumes "\<forall>x\<in>set pre. isl (f (contentPath e cache x) x)"
    and "f (contentPath e cache h) h = Inr v"
  shows "sync_loop e cache (pre @ h # post) (traced f) lastErr calls =
           (Inr v, calls @ map (candidate e cache) (pre @ [h]))"
  using assms
proof (induction pre arbitrary: lastErr calls)
  case Nil
  then show ?case by (simp add: traced_def)
next
  case (Cons a pre)
  from Cons.prems obtain err where "f (contentPath e cache a) a = Inl err"
    by (cases "f (contentPath e cache a) a") auto
  with Cons show ?case by (simp add: traced_def)
qed

lemma sync_loop_all_fail:
  assumes "\<forall>x\<in>set ms. isl (f (contentPath e cache x) x)" and "ms \<noteq> []"
  shows "sync_loop e cache ms (traced f) lastErr calls =
           (f (contentPath e cache (last ms)) (last ms), calls @ map (candidate e cache) ms)"
  using assms
proof (induction ms arbitrary: lastErr calls)
  case Nil
  then show ?case by simp
next
  case (Cons a ms)
  from Cons.prems obtain err where a: "f (contentPath e cache a) a = Inl err"
    by (cases "f (contentPath e cache a) a") auto
  show ?case
  proof (cases "ms = []")
    case True
    with a show ?thesis by (simp add: traced_def)
  next
    case False
    with Cons a show ?thesis by (simp add: traced_def)
  qed
qed

lemma promise_all_traced:
  "promise_all e cache sri ms (traced f) calls =
     (map (\<lambda>x. catch_candidate e sri (f (contentPath e cache x) x)) ms,
      calls @ map (candidate e cache) ms)"
  by (induction ms arbitrary: calls) (simp_all add: traced_def)


lemma find_success_none:
  "\<forall>x\<in>set ms. isl (g x) \<Longrightarrow> find (\<lambda>r. \<not> isl r) (map (\<lambda>x. catch_candidate e sri (g x)) ms) = None"
  by (induction ms) (auto simp: catch_candidate_def split: sum.splits)

lemma find_enoent_failures:
  "\<forall>x\<in>set ms. isl (g x) \<Longrightarrow>
   find_enoent (map (\<lambda>x. catch_candidate e sri (g x)) ms) =
     (if \<exists>x\<in>set ms. code (projl (g x)) = Some ''ENOENT''
      then Inr (Some ((Error (''No matching content found for '' @ sri_toString e sri))\<lparr>code := Some ''ENOENT''\<rparr>))
      else Inr None)"
proof (induction ms)
  case Nil
  then show ?case by simp
next
  case (Cons a ms)
  from Cons.prems obtain err where a: "g a = Inl err"
    by (cases "g a") auto
  with Cons show ?case
    by (auto simp: catch_candidate_def Error_def)
qed

lemma find_error_first:
  "isl (g a) \<Longrightarrow> code (projl (g a)) \<noteq> Some ''ENOENT'' \<Longrightarrow>
   find isl (map (\<lambda>x. catch_candidate e sri (g x)) (a # ms)) = Some (g a)"
  by (cases "g a") (auto simp: catch_candidate_def)

section \<open>Errors that a resolver can raise\<close>

lemma preservesD:
  "preserves I P fn \<Longrightarrow> I s \<Longrightarrow> fn cpath sri s = (r, s') \<Longrightarrow>
     I s' \<and> (\<forall>err. r = Inl err \<longrightarrow> P err)"
  unfolding preserves_def by blast

lemma sync_loop_error_inv:
  assumes fnP: "preserves I P fn"
    and "\<forall>err0. lastErr = Some err0 \<longrightarrow> P err0"
    and "I s"
    and "sync_loop e cache ms fn lastErr s = (Inl err, s')"
  shows "P err"
  using assms(2-)
proof (induction ms arbitrary: lastErr s)
  case Nil
  then show ?case by (auto split: option.splits)
next
  case (Cons a ms)
  obtain r s1 where r: "fn (contentPath e cache a) a s = (r, s1)"
    by (cases "fn (contentPath e cache a) a s") auto
  from preservesD[OF fnP Cons.prems(2) r] have I1: "I s1" and P1: "\<forall>err. r = Inl err \<longrightarrow> P err"
    by auto
  show ?case
  proof (cases r)
    case (Inl err1)
    with Cons.prems(3) r have "sync_loop e cache ms fn (Some err1) s1 = (Inl err, s')"
      by simp
    moreover have "\<forall>err0. Some err1 = Some err0 \<longrightarrow> P err0"
      using P1 Inl by simp
    ultimately show ?thesis using Cons.IH I1 by blast
  next
    case (Inr v)
    with Cons.prems(3) r show ?thesis by simp
  qed
qed

lemma withContentSriSync_error_inv:
  assumes fnP: "preserves I P fn"
    and "P type_error"
    and "\<forall>err0. parse e i = Inl err0 \<longrightarrow> P err0"
    and "\<forall>sri err0. pickAlgorithm e sri = Inl err0 \<longrightarrow> P err0"
    and "I s"
    and "withContentSriSync e cache i fn s = (Inl err, s')"
  shows "P err"
proof -
  have loop: "\<forall>ms. sync_loop e cache ms fn None s = (Inl err, s') \<longrightarrow> P err"
    using sync_loop_error_inv[where I = I and P = P and lastErr = None, OF fnP _ assms(5)]
    by blast
  have single: "\<forall>cpath sri. fn cpath sri s = (Inl err, s') \<longrightarrow> P err"
    using preservesD[OF fnP assms(5)] by blast
  show ?thesis
    using assms(2-4,6) loop single
    by (auto simp: withContentSriSync.simps split: sum.splits option.splits if_splits list.splits)
qed

lemma find_enoent_sound:
  "(find_enoent rs = Inr (Some err) \<longrightarrow> Inl err \<in> set rs)
   \<and> (find_enoent rs = Inl err \<longrightarrow> err = type_error)"
  by (induction rs rule: find_enoent.induct) auto

lemma then_results_error:
  assumes "then_results rs = Inl err"
  shows "err = type_error \<or> Inl err \<in> set rs"
proof -
  have g: "\<forall>x. find isl rs = Some x \<longrightarrow> x \<in> set rs"
    by (auto simp: find_Some_iff)
  show ?thesis
    using assms find_enoent_sound[of rs err] g
    by (auto simp: then_results_def split: option.splits sum.splits if_splits)
qed

lemma promise_all_error_inv:
  assumes fnP: "preserves I P fn"
    and agg: "P ((Error (''No matching content found for '' @ sri_toString e sri))\<lparr>code := Some ''ENOENT''\<rparr>)"
    and "I s"
    and "promise_all e cache sri ms fn s = (rs, s')"
    and "Inl err \<in> set rs"
  shows "P err"
  using assms(3-)
proof (induction ms arbitrary: s rs s')
  case Nil
  then show ?case by simp
next
  case (Cons a ms)
  obtain r s1 where r: "fn (contentPath e cache a) a s = (r, s1)"
    by (cases "fn (contentPath e cache a) a s") auto
  obtain rs1 s2 where rs1: "promise_all e cache sri ms fn s1 = (rs1, s2)"
    by (cases "promise_all e cache sri ms fn s1") auto
  from preservesD[OF fnP Cons.prems(1) r] have I1: "I s1" and P1: "\<forall>err. r = Inl err \<longrightarrow> P err"
    by auto
  from Cons.prems(2) r rs1 have rs: "rs = catch_candidate e sri r # rs1"
    by simp
  from Cons.prems(3) rs consider "Inl err = catch_candidate e sri r" | "Inl err \<in> set rs1"
    by auto
  then show ?case
  proof cases
    case 1
    then show ?thesis using P1 agg
      by (auto simp: catch_candidate_def split: sum.splits if_splits)
  next
    case 2
    then show ?thesis using Cons.IH[OF I1 rs1] by simp
  qed
qed

lemma withContentSri_error_inv:
  assumes fnP: "preserves I P fn"
    and "P type_error"
    and "\<forall>err0. parse e i = Inl err0 \<longrightarrow> P err0"
    and "\<forall>sri err0. pickAlgorithm e sri = Inl err0 \<longrightarrow> P err0"
    and agg: "\<forall>sri. P ((Error (''No matching content found for '' @ sri_toString e sri))\<lparr>code := Some ''ENOENT''\<rparr>)"
    and "I s"
    and "withContentSri e cache i fn s = (Inl err, s')"
  shows "P err"
proof -
  have multi: "\<forall>sri ms rs s2. promise_all e cache sri ms fn s = (rs, s2) \<longrightarrow>
                 then_results rs = Inl err \<longrightarrow> P err"
  proof (intro allI impI)
    fix sri ms rs s2
    assume pa: "promise_all e cache sri ms fn s = (rs, s2)" and tr: "then_results rs = Inl err"
    from then_results_error[OF tr] show "P err"
    proof
      assume "err = type_error"
      then show ?thesis using assms(2) by simp
    next
      assume "Inl err \<in> set rs"
      with promise_all_error_inv[where I = I and P = P, OF fnP _ assms(6) pa] agg
      show ?thesis by blast
    qed
  qed
  have single: "\<forall>cpath sri. fn cpath sri s = (Inl err, s') \<longrightarrow> P err"
    using preservesD[OF fnP assms(6)] by blast
  show ?thesis
    using assms(2-4,7) multi single
    by (auto simp: withContentSri.simps tryFn.simps
             split: sum.splits option.splits if_splits list.splits prod.splits)
qed


section \<open>Auxiliary facts\<close>

lemma ex_two_resolves:
  "parse ex_env ex_two = Inr [(''sha512'', [hA, hB])]"
  "pickAlgorithm ex_env [(''sha512'', [hA, hB])] = Inr ''sha512''"
  "map_of [(''sha512'', [hA, hB])] ''sha512'' = Some [hA, hB]"
  "1 < length [hA, hB]"
  by (simp_all add: parse_def ex_two_def)

lemma ex_paths [simp]:
  "contentPath ex_env ''/c'' hA = ''/c/aaaa''"
  "contentPath ex_env ''/c'' hB = ''/c/bbbb''"
  by (simp_all add: ex_env_def hA_def hB_def)

lemma ex_codes [simp]:
  "code enoent = Some ''ENOENT''" "code eacces = Some ''EACCES''" "code eperm = Some ''EPERM''"
  "code type_error = None"
  by (simp_all add: enoent_def eacces_def eperm_def type_error_def Error_def)

lemma error_codes [simp]:
  "code (sizeError x n) = Some ''EBADSIZE''"
  "expected (sizeError x n) = Some x"
  "found (sizeError x n) = Some n"
  "code (integrityError e h p) = Some ''EINTEGRITY''"
  "err_sri (integrityError e h p) = Some h"
  "err_path (integrityError e h p) = Some p"
  "code (Error m) = None"
  by (simp_all add: sizeError_def integrityError_def Error_def)

lemma read_access_eq: "read_access e opts = readSync_access e opts"
  by (intro ext) (simp add: read_access_def readSync_access_def)

lemma hA_resolves:
  "parse ex_env (SriHash hA) = Inr [(''sha512'', [hA])]"
  "pickAlgorithm ex_env [(''sha512'', [hA])] = Inr ''sha512''"
  "map_of [(''sha512'', [hA])] ''sha512'' = Some [hA]"
  by (simp_all add: parse_def hA_def)

lemma store_with_simps [simp]:
  "file_result (store_with data) ''/c/aaaa'' = Inr data"
  "file_result (store_with data) ''/c/bbbb'' = Inl enoent"
  "lstat_result (store_with data) ''/c/aaaa'' = Inr \<lparr>st_size = length data\<rparr>"
  "lstat_result (store_with data) ''/c/bbbb'' = Inl enoent"
  "write_error (store_with data) p = None"
  by (simp_all add: store_with_def)

lemma ex_env_simps [simp]:
  "checkData ex_env data h = (data = [1, 2, 3])"
  "integrityStream ex_env h sz data =
     (if data = [1, 2, 3] then None
      else Some ((Error ''stream verification failed'')\<lparr>code := Some ''EINTEGRITY''\<rparr>))"
  "parse_string ex_env str = Inl (Error ''malformed integrity'')"
  by (simp_all add: ex_env_def)

lemma parse_checkData_update [simp]: "parse (e\<lparr>checkData := c\<rparr>) i = parse e i"
  by (simp add: parse_def split: sri_input.splits)

lemma pickAlgorithm_checkData_update [simp]:
  "pickAlgorithm (e\<lparr>checkData := c\<rparr>) sri = pickAlgorithm e sri"
  by (simp add: pickAlgorithm_def split: list.splits)

lemma failing_store_simps [simp]:
  "lstat_result (failing_store err) p = Inl err"
  "file_result (failing_store err) p = Inl err"
  by (simp_all add: failing_store_def)

lemma read_access_non_number:
  assumes "typeof (size_opt opts) \<noteq> ''number''"
  shows "read_access e opts = read_access e (opts\<lparr>size_opt := OptUndefined\<rparr>)"
    and "readSync_access e opts = readSync_access e (opts\<lparr>size_opt := OptUndefined\<rparr>)"
  using assms
  by (auto simp: read_access_def readSync_access_def fun_eq_iff split: sum.splits)

lemma read_access_preserves:
  assumes "typeof (size_opt opts) \<noteq> ''number''"
    and "\<forall>p err. file_result fs p = Inl err \<longrightarrow> code err \<noteq> Some ''EBADSIZE''"
  shows "preserves (\<lambda>s. s = fs) (\<lambda>err. code err \<noteq> Some ''EBADSIZE'') (read_access e opts)"
    and "preserves (\<lambda>s. s = fs) (\<lambda>err. code err \<noteq> Some ''EBADSIZE'') (readSync_access e opts)"
  using assms
  by (auto simp: preserves_def read_access_def readSync_access_def split: sum.splits if_splits)

section \<open>The resolvers on a descriptor with several entries\<close>

text \<open>
  C4. For a descriptor whose selected algorithm has more than one entry, the blocking
  resolver calls the access function on the entries in their order, returns the result
  of the first entry that does not throw, without calling it on the later entries, and,
  when every entry throws, throws the error of the last entry.
\<close>

theorem withContentSriSync_in_order:
  assumes "parse e i = Inr sri" and "pickAlgorithm e sri = Inr algo"
    and "map_of sri algo = Some digests" and "1 < length digests"
  shows "(\<forall>pre h post v. digests = pre @ h # post \<longrightarrow>
            (\<forall>x\<in>set pre. isl (f (contentPath e cache x) x)) \<longrightarrow>
            f (contentPath e cache h) h = Inr v \<longrightarrow>
            withContentSriSync e cache i (traced f) [] =
              (Inr v, map (candidate e cache) (pre @ [h])))
       \<and> ((\<forall>x\<in>set digests. isl (f (contentPath e cache x) x)) \<longrightarrow>
            withContentSriSync e cache i (traced f) [] =
              (f (contentPath e cache (last digests)) (last digests),
               map (candidate e cache) digests))"
proof -
  have w: "withContentSriSync e cache i (traced f) [] = sync_loop e cache digests (traced f) None []"
    using assms by (rule withContentSriSync_multi)
  have ne: "digests \<noteq> []" using assms(4) by auto
  show ?thesis
    unfolding w using sync_loop_success[of _ f e cache _ _ _ None "[]"]
      sync_loop_all_fail[of digests f e cache None "[]"] ne
    by auto
qed



theorem withContentSriSync_in_order_witness:
  "withContentSriSync ex_env ''/c'' ex_two
      (traced (\<lambda>cpath sri. if cpath = ''/c/bbbb'' then Inr (JBool False) else Inl eacces)) [] =
     (Inr (JBool False), [(''/c/aaaa'', hA), (''/c/bbbb'', hB)])
   \<and> withContentSriSync ex_env ''/c'' ex_two
      (traced (\<lambda>cpath sri. if cpath = ''/c/aaaa'' then Inr JUndefined else Inl eacces)) [] =
     (Inr JUndefined, [(''/c/aaaa'', hA)])
   \<and> withContentSriSync ex_env ''/c'' ex_two
      (traced (\<lambda>cpath sri. if cpath = ''/c/aaaa'' then Inl eacces else Inl enoent)) [] =
     (Inl enoent, [(''/c/aaaa'', hA), (''/c/bbbb'', hB)])"
proof -
  note T = withContentSriSync_in_order [OF ex_two_resolves, of _ "''/c''"]
  have a: "withContentSriSync ex_env ''/c'' ex_two
      (traced (\<lambda>cpath sri. if cpath = ''/c/bbbb'' then Inr (JBool False) else Inl eacces)) [] =
     (Inr (JBool False), [(''/c/aaaa'', hA), (''/c/bbbb'', hB)])"
    using T [THEN conjunct1, rule_format, of "[hA]" hB "[]" _ "JBool False"] by simp
  have b: "withContentSriSync ex_env ''/c'' ex_two
      (traced (\<lambda>cpath sri. if cpath = ''/c/aaaa'' then Inr JUndefined else Inl eacces)) [] =
     (Inr JUndefined, [(''/c/aaaa'', hA)])"
    using T [THEN conjunct1, rule_format, of "[]" hA "[hB]" _ "JUndefined"] by simp
  have c: "withContentSriSync ex_env ''/c'' ex_two
      (traced (\<lambda>cpath sri. if cpath = ''/c/aaaa'' then Inl eacces else Inl enoent)) [] =
     (Inl enoent, [(''/c/aaaa'', hA), (''/c/bbbb'', hB)])"
    using T [THEN conjunct2, rule_format,
             of "\<lambda>cpath sri. if cpath = ''/c/aaaa'' then Inl eacces else Inl enoent"] by simp
  from a b c show ?thesis by blast
qed

text \<open>
  C2. For a descriptor whose selected algorithm has more than one entry, when the access
  function failed on every entry: if some failure has code \<^verbatim>\<open>ENOENT\<close>, the
  non-blocking resolver rejects with one new error of code \<^verbatim>\<open>ENOENT\<close> whose message
  is "No matching content found for" and the descriptor; otherwise it rejects with the
  failure of the first entry. The access function was called on every entry.
\<close>

theorem withContentSri_all_failed:
  assumes "parse e i = Inr sri" and "pickAlgorithm e sri = Inr algo"
    and "map_of sri algo = Some digests" and "1 < length digests"
    and "\<forall>x\<in>set digests. isl (f (contentPath e cache x) x)"
  shows "((\<exists>x\<in>set digests. code (projl (f (contentPath e cache x) x)) = Some ''ENOENT'') \<longrightarrow>
            withContentSri e cache i (traced f) [] =
              (Inl ((Error (''No matching content found for '' @ sri_toString e sri))
                      \<lparr>code := Some ''ENOENT''\<rparr>),
               map (candidate e cache) digests))
       \<and> ((\<forall>x\<in>set digests. code (projl (f (contentPath e cache x) x)) \<noteq> Some ''ENOENT'') \<longrightarrow>
            withContentSri e cache i (traced f) [] =
              (f (contentPath e cache (hd digests)) (hd digests),
               map (candidate e cache) digests))"
proof -
  let ?g = "\<lambda>x. f (contentPath e cache x) x"
  let ?rs = "map (\<lambda>x. catch_candidate e sri (?g x)) digests"
  have w: "withContentSri e cache i (traced f) [] =
             (then_results ?rs, map (candidate e cache) digests)"
    using assms(1-4) by (simp add: withContentSri_multi promise_all_traced)
  have none: "find (\<lambda>r. \<not> isl r) ?rs = None"
    using assms(5) by (rule find_success_none)
  have en: "find_enoent ?rs =
     (if \<exists>x\<in>set digests. code (projl (?g x)) = Some ''ENOENT''
      then Inr (Some ((Error (''No matching content found for '' @ sri_toString e sri))\<lparr>code := Some ''ENOENT''\<rparr>))
      else Inr None)"
    using assms(5) by (rule find_enoent_failures)
  obtain a ms where d: "digests = a # ms"
    using assms(4) by (cases digests) auto
  have a: "isl (?g a)" using assms(5) d by simp
  have first: "code (projl (?g a)) \<noteq> Some ''ENOENT'' \<Longrightarrow> find isl ?rs = Some (?g a)"
    unfolding d using a by (rule find_error_first)
  obtain err where err: "?g a = Inl err" using a by (cases "?g a") auto
  show ?thesis
  proof (intro conjI impI)
    assume "\<exists>x\<in>set digests. code (projl (?g x)) = Some ''ENOENT''"
    then show "withContentSri e cache i (traced f) [] =
              (Inl ((Error (''No matching content found for '' @ sri_toString e sri))
                      \<lparr>code := Some ''ENOENT''\<rparr>),
               map (candidate e cache) digests)"
      unfolding w then_results_def none en by simp
  next
    assume h: "\<forall>x\<in>set digests. code (projl (?g x)) \<noteq> Some ''ENOENT''"
    then have "code (projl (?g a)) \<noteq> Some ''ENOENT''" using d by simp
    from first[OF this] h show "withContentSri e cache i (traced f) [] =
              (?g (hd digests), map (candidate e cache) digests)"
      unfolding w then_results_def none en using err d by simp
  qed
qed


theorem withContentSri_all_failed_witness:
  "withContentSri ex_env ''/c'' ex_two
      (traced (\<lambda>cpath sri. if cpath = ''/c/aaaa'' then Inl eacces else Inl enoent)) [] =
     (Inl ((Error ''No matching content found for sha512-aaaa sha512-bbbb'')\<lparr>code := Some ''ENOENT''\<rparr>),
      [(''/c/aaaa'', hA), (''/c/bbbb'', hB)])
   \<and> withContentSri ex_env ''/c'' ex_two
      (traced (\<lambda>cpath sri. if cpath = ''/c/aaaa'' then Inl eacces else Inl eperm)) [] =
     (Inl eacces, [(''/c/aaaa'', hA), (''/c/bbbb'', hB)])"
proof -
  note T = withContentSri_all_failed [OF ex_two_resolves, of _ "''/c''"]
  have a: "withContentSri ex_env ''/c'' ex_two
      (traced (\<lambda>cpath sri. if cpath = ''/c/aaaa'' then Inl eacces else Inl enoent)) [] =
     (Inl ((Error ''No matching content found for sha512-aaaa sha512-bbbb'')\<lparr>code := Some ''ENOENT''\<rparr>),
      [(''/c/aaaa'', hA), (''/c/bbbb'', hB)])"
    using T [of "\<lambda>cpath sri. if cpath = ''/c/aaaa'' then Inl eacces else Inl enoent",
             THEN conjunct1]
    by (simp add: ex_env_def hA_def hB_def)
  have b: "withContentSri ex_env ''/c'' ex_two
      (traced (\<lambda>cpath sri. if cpath = ''/c/aaaa'' then Inl eacces else Inl eperm)) [] =
     (Inl eacces, [(''/c/aaaa'', hA), (''/c/bbbb'', hB)])"
    using T [of "\<lambda>cpath sri. if cpath = ''/c/aaaa'' then Inl eacces else Inl eperm",
             THEN conjunct2]
    by simp
  from a b show ?thesis by blast
qed

text \<open>
  When the first entry on which the access function succeeds gives a truthy value, the
  non-blocking resolver resolves to that value, after calling the access function on
  every entry.
\<close>

lemma find_first_success:
  assumes "\<forall>x\<in>set pre. isl (g x)" and "g h = Inr v"
  shows "find (\<lambda>r. \<not> isl r) (map (\<lambda>x. catch_candidate e sri (g x)) (pre @ h # post)) = Some (Inr v)"
  using assms by (induction pre) (auto simp: catch_candidate_def split: sum.splits)

lemma withContentSri_first_truthy_success:
  assumes "parse e i = Inr sri" and "pickAlgorithm e sri = Inr algo"
    and "map_of sri algo = Some digests" and "1 < length digests"
    and "digests = pre @ h # post"
    and "\<forall>x\<in>set pre. isl (f (contentPath e cache x) x)"
    and "f (contentPath e cache h) h = Inr v" and "truthy v"
  shows "withContentSri e cache i (traced f) [] = (Inr v, map (candidate e cache) digests)"
proof -
  have "find (\<lambda>r. \<not> isl r)
          (map (\<lambda>x. catch_candidate e sri (f (contentPath e cache x) x)) (pre @ h # post)) =
        Some (Inr v)"
    using assms(6,7) by (rule find_first_success)
  then show ?thesis
    using assms(8)
    by (simp add: withContentSri_multi [OF assms(1-4)] promise_all_traced then_results_def
        assms(5))
qed

text \<open>
  C1. At a descriptor with two entries, the copy of the first entry succeeds (it resolves
  to \<^verbatim>\<open>undefined\<close>) and the destination holds the bytes, yet the non-blocking copy
  rejects with a \<^verbatim>\<open>TypeError\<close>: the success is not returned, because line 178 tests the
  found result for truthiness. The access function was called on both entries; a success
  of the second entry with the value \<^verbatim>\<open>undefined\<close>, after a missing first entry, is
  answered with the \<^verbatim>\<open>ENOENT\<close> error.
\<close>

theorem copy_two_entries_type_error:
  "fst (copyFile (contentPath ex_env ''/c'' hA) ''/dest'' (store_with [1, 2, 3])) = Inr JUndefined
   \<and> fst (copy ex_env ''/c'' ex_two ''/dest'' \<lparr>size_opt = OptUndefined\<rparr> (store_with [1, 2, 3])) =
       Inl type_error
   \<and> file_result (snd (copy ex_env ''/c'' ex_two ''/dest'' \<lparr>size_opt = OptUndefined\<rparr>
                         (store_with [1, 2, 3]))) ''/dest'' = Inr [1, 2, 3]
   \<and> withContentSri ex_env ''/c'' ex_two
         (traced (\<lambda>cpath sri. if cpath = ''/c/aaaa'' then Inr JUndefined else Inl enoent)) [] =
       (Inl type_error, [(''/c/aaaa'', hA), (''/c/bbbb'', hB)])
   \<and> withContentSri ex_env ''/c'' ex_two
         (traced (\<lambda>cpath sri. if cpath = ''/c/bbbb'' then Inr JUndefined else Inl enoent)) [] =
       (Inl ((Error ''No matching content found for sha512-aaaa sha512-bbbb'')
               \<lparr>code := Some ''ENOENT''\<rparr>),
        [(''/c/aaaa'', hA), (''/c/bbbb'', hB)])"
proof -
  have st: "sri_toString ex_env [(''sha512'', [hA, hB])] = ''sha512-aaaa sha512-bbbb''"
    by (simp add: ex_env_def hA_def hB_def)
  show ?thesis
    by (simp add: copy_def withContentSri_multi [OF ex_two_resolves] copyFile_def
        promise_all_traced then_results_def catch_candidate_def st)
qed

section \<open>Properties of the buffered read\<close>

text \<open>
  C8. For a descriptor that resolves to one entry and a readable file, the blocking and
  the non-blocking read give the same outcome: the error of code \<^verbatim>\<open>EBADSIZE\<close> when a
  size of number type differs from the length of the bytes, else the error of code
  \<^verbatim>\<open>EINTEGRITY\<close> when the check against the entry fails, else the bytes.
  The two access functions are the same function of the path, the entry and the file
  system.
\<close>

theorem read_readSync_agree:
  assumes "parse e i = Inr sri" and "pickAlgorithm e sri = Inr algo"
    and "map_of sri algo = Some [d]"
    and "file_result fs (contentPath e cache d) = Inr data"
  shows "read e cache i opts fs = readSync e cache i opts fs
       \<and> readSync e cache i opts fs =
           (if typeof (size_opt opts) = ''number'' \<and> size_opt opts \<noteq> OptNumber (int (length data))
            then Inl (sizeError (size_opt opts) (length data))
            else if \<not> checkData e data d then Inl (integrityError e d (contentPath e cache d))
            else Inr (JBuffer data), fs)
       \<and> code (sizeError (size_opt opts) (length data)) = Some ''EBADSIZE''
       \<and> code (integrityError e d (contentPath e cache d)) = Some ''EINTEGRITY''
       \<and> read_access e opts = readSync_access e opts"
  using assms
  by (simp add: read_def readSync_def withContentSri_single [OF assms(1-3)]
      withContentSriSync_single [OF assms(1-3)] read_access_eq readSync_access_def)

theorem read_readSync_agree_witness:
  "read ex_env ''/c'' (SriHash hA) \<lparr>size_opt = OptNumber 3\<rparr> (store_with [1, 2, 3]) =
     readSync ex_env ''/c'' (SriHash hA) \<lparr>size_opt = OptNumber 3\<rparr> (store_with [1, 2, 3])
   \<and> readSync ex_env ''/c'' (SriHash hA) \<lparr>size_opt = OptNumber 3\<rparr> (store_with [1, 2, 3]) =
       (Inr (JBuffer [1, 2, 3]), store_with [1, 2, 3])
   \<and> read ex_env ''/c'' (SriHash hA) \<lparr>size_opt = OptNumber 3\<rparr> (store_with [7, 8, 9]) =
     readSync ex_env ''/c'' (SriHash hA) \<lparr>size_opt = OptNumber 3\<rparr> (store_with [7, 8, 9])
   \<and> readSync ex_env ''/c'' (SriHash hA) \<lparr>size_opt = OptNumber 3\<rparr> (store_with [7, 8, 9]) =
       (Inl (integrityError ex_env hA ''/c/aaaa''), store_with [7, 8, 9])
   \<and> read ex_env ''/c'' (SriHash hA) \<lparr>size_opt = OptNumber 4\<rparr> (store_with [7, 8, 9]) =
     readSync ex_env ''/c'' (SriHash hA) \<lparr>size_opt = OptNumber 4\<rparr> (store_with [7, 8, 9])
   \<and> readSync ex_env ''/c'' (SriHash hA) \<lparr>size_opt = OptNumber 4\<rparr> (store_with [7, 8, 9]) =
       (Inl (sizeError (OptNumber 4) 3), store_with [7, 8, 9])"
  using read_readSync_agree [OF hA_resolves, of "store_with [1, 2, 3]" "''/c''" "[1, 2, 3]"
          "\<lparr>size_opt = OptNumber 3\<rparr>"]
    read_readSync_agree [OF hA_resolves, of "store_with [7, 8, 9]" "''/c''" "[7, 8, 9]"
          "\<lparr>size_opt = OptNumber 3\<rparr>"]
    read_readSync_agree [OF hA_resolves, of "store_with [7, 8, 9]" "''/c''" "[7, 8, 9]"
          "\<lparr>size_opt = OptNumber 4\<rparr>"]
  by (simp add: numeral_3_eq_3)

text \<open>
  C5, as stated, fails: a size that is not a number is never compared (a string size
  that differs from the length leaves the read successful), and with several entries the
  size error of one entry is not the outcome of the read (here the missing second entry
  makes it an \<^verbatim>\<open>ENOENT\<close> error, in both forms).
\<close>

theorem read_size_counterexample:
  "size_opt \<lparr>size_opt = OptString ''7''\<rparr> \<noteq> OptNumber (int (length [1, 2, 3 :: 8 word]))
   \<and> read ex_env ''/c'' (SriHash hA) \<lparr>size_opt = OptString ''7''\<rparr> (store_with [1, 2, 3]) =
       (Inr (JBuffer [1, 2, 3]), store_with [1, 2, 3])
   \<and> readSync ex_env ''/c'' (SriHash hA) \<lparr>size_opt = OptString ''7''\<rparr> (store_with [1, 2, 3]) =
       (Inr (JBuffer [1, 2, 3]), store_with [1, 2, 3])
   \<and> read_access ex_env \<lparr>size_opt = OptNumber 7\<rparr> ''/c/aaaa'' hA (store_with [1, 2, 3]) =
       (Inl (sizeError (OptNumber 7) 3), store_with [1, 2, 3])
   \<and> read ex_env ''/c'' ex_two \<lparr>size_opt = OptNumber 7\<rparr> (store_with [1, 2, 3]) =
       (Inl ((Error ''No matching content found for sha512-aaaa sha512-bbbb'')\<lparr>code := Some ''ENOENT''\<rparr>),
        store_with [1, 2, 3])
   \<and> readSync ex_env ''/c'' ex_two \<lparr>size_opt = OptNumber 7\<rparr> (store_with [1, 2, 3]) =
       (Inl enoent, store_with [1, 2, 3])"
proof -
  have st: "sri_toString ex_env [(''sha512'', [hA, hB])] = ''sha512-aaaa sha512-bbbb''"
    by (simp add: ex_env_def hA_def hB_def)
  show ?thesis
    by (simp add: read_def readSync_def withContentSri_multi [OF ex_two_resolves]
      withContentSriSync_multi [OF ex_two_resolves] read_access_def readSync_access_def
      then_results_def catch_candidate_def st numeral_3_eq_3)
qed


text \<open>
  C5, amended. For a descriptor that resolves to one entry, when the size option is a
  number that differs from the length of the bytes read, both reads fail with the error
  of code \<^verbatim>\<open>EBADSIZE\<close> that carries the expected and the found length, whatever the
  check of the bytes against the entry would answer. With several entries this error is
  the outcome of the access function on that entry.
\<close>

theorem read_size_mismatch:
  assumes "parse e i = Inr sri" and "pickAlgorithm e sri = Inr algo"
    and "map_of sri algo = Some [d]"
    and "file_result fs (contentPath e cache d) = Inr data"
    and "size_opt opts = OptNumber n" and "n \<noteq> int (length data)"
  shows "read e cache i opts fs = (Inl (sizeError (OptNumber n) (length data)), fs)
       \<and> readSync e cache i opts fs = (Inl (sizeError (OptNumber n) (length data)), fs)
       \<and> code (sizeError (OptNumber n) (length data)) = Some ''EBADSIZE''
       \<and> expected (sizeError (OptNumber n) (length data)) = Some (OptNumber n)
       \<and> found (sizeError (OptNumber n) (length data)) = Some (length data)
       \<and> (\<forall>c. read (e\<lparr>checkData := c\<rparr>) cache i opts fs =
                (Inl (sizeError (OptNumber n) (length data)), fs)
              \<and> readSync (e\<lparr>checkData := c\<rparr>) cache i opts fs =
                (Inl (sizeError (OptNumber n) (length data)), fs))
       \<and> (\<forall>cpath h bs. file_result fs cpath = Inr bs \<longrightarrow> n \<noteq> int (length bs) \<longrightarrow>
              read_access e opts cpath h fs = (Inl (sizeError (OptNumber n) (length bs)), fs)
            \<and> readSync_access e opts cpath h fs = (Inl (sizeError (OptNumber n) (length bs)), fs))"
proof -
  have any: "read e' cache i opts fs = (Inl (sizeError (OptNumber n) (length data)), fs)
           \<and> readSync e' cache i opts fs = (Inl (sizeError (OptNumber n) (length data)), fs)"
    if "parse e' i = Inr sri" "pickAlgorithm e' sri = Inr algo" "contentPath e' = contentPath e"
    for e'
    using that assms(3-6)
    by (simp add: read_def readSync_def withContentSri_single [OF that(1,2) assms(3)]
        withContentSriSync_single [OF that(1,2) assms(3)] read_access_def readSync_access_def)
  have upd: "\<forall>c. read (e\<lparr>checkData := c\<rparr>) cache i opts fs =
                (Inl (sizeError (OptNumber n) (length data)), fs)
              \<and> readSync (e\<lparr>checkData := c\<rparr>) cache i opts fs =
                (Inl (sizeError (OptNumber n) (length data)), fs)"
    using assms(1,2) by (intro allI any) simp_all
  have cand: "\<forall>cpath h bs. file_result fs cpath = Inr bs \<longrightarrow> n \<noteq> int (length bs) \<longrightarrow>
              read_access e opts cpath h fs = (Inl (sizeError (OptNumber n) (length bs)), fs)
            \<and> readSync_access e opts cpath h fs = (Inl (sizeError (OptNumber n) (length bs)), fs)"
    using assms(5) by (simp add: read_access_def readSync_access_def)
  from any [of e] assms(1,2) upd cand show ?thesis by simp
qed

theorem read_size_mismatch_witness:
  "read ex_env ''/c'' (SriHash hA) \<lparr>size_opt = OptNumber 7\<rparr> (store_with [1, 2, 3]) =
     (Inl (sizeError (OptNumber 7) 3), store_with [1, 2, 3])
   \<and> readSync ex_env ''/c'' (SriHash hA) \<lparr>size_opt = OptNumber 7\<rparr> (store_with [1, 2, 3]) =
     (Inl (sizeError (OptNumber 7) 3), store_with [1, 2, 3])
   \<and> read (ex_env\<lparr>checkData := \<lambda>data h. False\<rparr>) ''/c'' (SriHash hA) \<lparr>size_opt = OptNumber 7\<rparr>
       (store_with [1, 2, 3]) =
     (Inl (sizeError (OptNumber 7) 3), store_with [1, 2, 3])
   \<and> code (sizeError (OptNumber 7) 3) = Some ''EBADSIZE''"
  using read_size_mismatch [OF hA_resolves, of "store_with [1, 2, 3]" "''/c''" "[1, 2, 3]"
          "\<lparr>size_opt = OptNumber 7\<rparr>" 7]
  by (simp add: numeral_3_eq_3)

text \<open>
  C6, as stated, fails with several entries: the bytes of the first entry fail the
  check, the second entry is missing, and the read fails with an \<^verbatim>\<open>ENOENT\<close> error, in
  both forms.
\<close>

theorem read_integrity_counterexample:
  "read_access ex_env \<lparr>size_opt = OptUndefined\<rparr> ''/c/aaaa'' hA (store_with [7, 8, 9]) =
       (Inl (integrityError ex_env hA ''/c/aaaa''), store_with [7, 8, 9])
   \<and> read ex_env ''/c'' ex_two \<lparr>size_opt = OptUndefined\<rparr> (store_with [7, 8, 9]) =
       (Inl ((Error ''No matching content found for sha512-aaaa sha512-bbbb'')\<lparr>code := Some ''ENOENT''\<rparr>),
        store_with [7, 8, 9])
   \<and> readSync ex_env ''/c'' ex_two \<lparr>size_opt = OptUndefined\<rparr> (store_with [7, 8, 9]) =
       (Inl enoent, store_with [7, 8, 9])"
proof -
  have st: "sri_toString ex_env [(''sha512'', [hA, hB])] = ''sha512-aaaa sha512-bbbb''"
    by (simp add: ex_env_def hA_def hB_def)
  show ?thesis
    by (simp add: read_def readSync_def withContentSri_multi [OF ex_two_resolves]
      withContentSriSync_multi [OF ex_two_resolves] read_access_def readSync_access_def
      then_results_def catch_candidate_def st)
qed

text \<open>
  C6, amended. For a descriptor that resolves to one entry, when the bytes read pass the
  size check and fail the check against the entry, both reads fail with the error of
  code \<^verbatim>\<open>EINTEGRITY\<close> that carries the entry and the content path. With several entries
  this error is the outcome of the access function on that entry.
\<close>

theorem read_integrity_mismatch:
  assumes "parse e i = Inr sri" and "pickAlgorithm e sri = Inr algo"
    and "map_of sri algo = Some [d]"
    and "file_result fs (contentPath e cache d) = Inr data"
    and "\<not> (typeof (size_opt opts) = ''number'' \<and> size_opt opts \<noteq> OptNumber (int (length data)))"
    and "\<not> checkData e data d"
  shows "read e cache i opts fs = (Inl (integrityError e d (contentPath e cache d)), fs)
       \<and> readSync e cache i opts fs = (Inl (integrityError e d (contentPath e cache d)), fs)
       \<and> code (integrityError e d (contentPath e cache d)) = Some ''EINTEGRITY''
       \<and> err_sri (integrityError e d (contentPath e cache d)) = Some d
       \<and> err_path (integrityError e d (contentPath e cache d)) = Some (contentPath e cache d)
       \<and> (\<forall>cpath h bs. file_result fs cpath = Inr bs \<longrightarrow>
              \<not> (typeof (size_opt opts) = ''number'' \<and> size_opt opts \<noteq> OptNumber (int (length bs))) \<longrightarrow>
              \<not> checkData e bs h \<longrightarrow>
              read_access e opts cpath h fs = (Inl (integrityError e h cpath), fs)
            \<and> readSync_access e opts cpath h fs = (Inl (integrityError e h cpath), fs))"
  using assms(4-6)
  by (auto simp: read_def readSync_def withContentSri_single [OF assms(1-3)]
      withContentSriSync_single [OF assms(1-3)] read_access_def readSync_access_def)

theorem read_integrity_mismatch_witness:
  "read ex_env ''/c'' (SriHash hA) \<lparr>size_opt = OptNumber 3\<rparr> (store_with [7, 8, 9]) =
     (Inl (integrityError ex_env hA ''/c/aaaa''), store_with [7, 8, 9])
   \<and> readSync ex_env ''/c'' (SriHash hA) \<lparr>size_opt = OptNumber 3\<rparr> (store_with [7, 8, 9]) =
     (Inl (integrityError ex_env hA ''/c/aaaa''), store_with [7, 8, 9])
   \<and> err_sri (integrityError ex_env hA ''/c/aaaa'') = Some hA
   \<and> err_path (integrityError ex_env hA ''/c/aaaa'') = Some ''/c/aaaa''"
  using read_integrity_mismatch [OF hA_resolves, of "store_with [7, 8, 9]" "''/c''" "[7, 8, 9]"
          "\<lparr>size_opt = OptNumber 3\<rparr>"]
  by simp


text \<open>
  C10. When the size option is not of number type, the size check is skipped: the read
  behaves as with no size option, and it cannot fail with code \<^verbatim>\<open>EBADSIZE\<close>, for
  every descriptor (given that neither the file system nor the parser raises an error of
  that code themselves).
\<close>

theorem read_non_number_size:
  assumes "typeof (size_opt opts) \<noteq> ''number''"
    and "\<forall>p err. file_result fs p = Inl err \<longrightarrow> code err \<noteq> Some ''EBADSIZE''"
    and "\<forall>str err. parse_string e str = Inl err \<longrightarrow> code err \<noteq> Some ''EBADSIZE''"
  shows "(\<forall>err. fst (read e cache i opts fs) = Inl err \<longrightarrow> code err \<noteq> Some ''EBADSIZE'')
       \<and> (\<forall>err. fst (readSync e cache i opts fs) = Inl err \<longrightarrow> code err \<noteq> Some ''EBADSIZE'')
       \<and> read e cache i opts fs = read e cache i (opts\<lparr>size_opt := OptUndefined\<rparr>) fs
       \<and> readSync e cache i opts fs = readSync e cache i (opts\<lparr>size_opt := OptUndefined\<rparr>) fs"
proof -
  let ?P = "\<lambda>err. code err \<noteq> Some ''EBADSIZE''"
  have te: "?P type_error" by simp
  have pe: "\<forall>err0. parse e i = Inl err0 \<longrightarrow> ?P err0"
    using assms(3) by (auto simp: parse_def split: sri_input.splits)
  have pk: "\<forall>sri err0. pickAlgorithm e sri = Inl err0 \<longrightarrow> ?P err0"
    by (auto simp: pickAlgorithm_def split: list.splits)
  have agg: "\<forall>sri. ?P ((Error (''No matching content found for '' @ sri_toString e sri))
                        \<lparr>code := Some ''ENOENT''\<rparr>)"
    by simp
  have a: "?P err" if "fst (read e cache i opts fs) = Inl err" for err
  proof -
    from that obtain s' where "withContentSri e cache i (read_access e opts) fs = (Inl err, s')"
      by (cases "withContentSri e cache i (read_access e opts) fs") (simp add: read_def)
    from withContentSri_error_inv [where I = "\<lambda>s. s = fs" and P = ?P,
        OF read_access_preserves(1) [OF assms(1,2)] te pe pk agg _ this]
    show ?thesis by simp
  qed
  have b: "?P err" if "fst (readSync e cache i opts fs) = Inl err" for err
  proof -
    from that obtain s' where "withContentSriSync e cache i (readSync_access e opts) fs = (Inl err, s')"
      by (cases "withContentSriSync e cache i (readSync_access e opts) fs") (simp add: readSync_def)
    from withContentSriSync_error_inv [where I = "\<lambda>s. s = fs" and P = ?P,
        OF read_access_preserves(2) [OF assms(1,2)] te pe pk _ this]
    show ?thesis by simp
  qed
  have c: "read e cache i opts fs = read e cache i (opts\<lparr>size_opt := OptUndefined\<rparr>) fs"
    using read_access_non_number(1) [OF assms(1), of e] by (simp add: read_def)
  have d: "readSync e cache i opts fs = readSync e cache i (opts\<lparr>size_opt := OptUndefined\<rparr>) fs"
    using read_access_non_number(2) [OF assms(1), of e] by (simp add: readSync_def)
  from a b c d show ?thesis by blast
qed

theorem read_non_number_size_witness:
  "typeof (OptString ''7'') \<noteq> ''number''
   \<and> read ex_env ''/c'' (SriHash hA) \<lparr>size_opt = OptString ''7''\<rparr> (store_with [1, 2, 3]) =
       read ex_env ''/c'' (SriHash hA) \<lparr>size_opt = OptUndefined\<rparr> (store_with [1, 2, 3])
   \<and> readSync ex_env ''/c'' (SriHash hA) \<lparr>size_opt = OptString ''7''\<rparr> (store_with [1, 2, 3]) =
       readSync ex_env ''/c'' (SriHash hA) \<lparr>size_opt = OptUndefined\<rparr> (store_with [1, 2, 3])
   \<and> fst (read ex_env ''/c'' ex_two \<lparr>size_opt = OptNull\<rparr> (store_with [7, 8, 9])) =
       Inl ((Error ''No matching content found for sha512-aaaa sha512-bbbb'')\<lparr>code := Some ''ENOENT''\<rparr>)
   \<and> code ((Error ''No matching content found for sha512-aaaa sha512-bbbb'')\<lparr>code := Some ''ENOENT''\<rparr>)
       \<noteq> Some ''EBADSIZE''"
proof -
  have fsok: "\<forall>p err. file_result (store_with bs) p = Inl err \<longrightarrow> code err \<noteq> Some ''EBADSIZE''" for bs
    by (simp add: store_with_def)
  have psok: "\<forall>str err. parse_string ex_env str = Inl err \<longrightarrow> code err \<noteq> Some ''EBADSIZE''"
    by simp
  have st: "sri_toString ex_env [(''sha512'', [hA, hB])] = ''sha512-aaaa sha512-bbbb''"
    by (simp add: ex_env_def hA_def hB_def)
  have r: "fst (read ex_env ''/c'' ex_two \<lparr>size_opt = OptNull\<rparr> (store_with [7, 8, 9])) =
       Inl ((Error ''No matching content found for sha512-aaaa sha512-bbbb'')\<lparr>code := Some ''ENOENT''\<rparr>)"
    by (simp add: read_def withContentSri_multi [OF ex_two_resolves] read_access_def
        then_results_def catch_candidate_def st)
  have n1: "typeof (size_opt \<lparr>size_opt = OptString ''7''\<rparr>) \<noteq> ''number''" by simp
  have n2: "typeof (size_opt \<lparr>size_opt = OptNull\<rparr>) \<noteq> ''number''" by simp
  note A = read_non_number_size [where e = ex_env and cache = "''/c''" and i = "SriHash hA"
      and opts = "\<lparr>size_opt = OptString ''7''\<rparr>" and fs = "store_with [1, 2, 3]",
      OF n1 fsok psok]
  note B = read_non_number_size [where e = ex_env and cache = "''/c''" and i = ex_two
      and opts = "\<lparr>size_opt = OptNull\<rparr>" and fs = "store_with [7, 8, 9]",
      OF n2 fsok psok, THEN conjunct1, rule_format, OF r]
  from A B r show ?thesis by simp
qed


section \<open>Properties of the existence check\<close>

text \<open>
  C3, as stated, fails: on a stat that fails with code \<^verbatim>\<open>EACCES\<close>, both forms of the
  existence check answer \<^verbatim>\<open>undefined\<close>; the failure does not reach the caller.
\<close>

theorem hasContent_other_code_counterexample:
  "integrity_truthy (SriHash hA)
   \<and> lstat_result (failing_store eacces) (contentPath ex_env ''/c'' hA) = Inl eacces
   \<and> code eacces = Some ''EACCES''
   \<and> hasContent ex_env ''linux'' ''/c'' (SriHash hA) (failing_store eacces) =
       (Inr JUndefined, failing_store eacces)
   \<and> hasContentSync ex_env ''linux'' ''/c'' (SriHash hA) (failing_store eacces) =
       (Inr JUndefined, failing_store eacces)"
  by (simp add: hasContent_def hasContentSync_def hasContent_access_def
      hasContentSync_access_def failing_store_def)

text \<open>
  C3, amended. For a descriptor that is given, the existence check answers \<^verbatim>\<open>false\<close>
  on a failure of code \<^verbatim>\<open>ENOENT\<close>, answers \<^verbatim>\<open>false\<close> on a failure of code
  \<^verbatim>\<open>EPERM\<close> on Windows and raises it again on every other platform, and on a failure
  of any other code raises nothing and answers \<^verbatim>\<open>undefined\<close>. The non-blocking form
  treats the rejection of the resolver so; the blocking form treats the failure of the
  stat in its access function so; for a descriptor that resolves to one entry, both
  treat the failure of the stat so.
\<close>

theorem hasContent_error_policy:
  assumes "integrity_truthy i"
  shows "(\<forall>err fs'. withContentSri e cache i hasContent_access fs = (Inl err, fs') \<longrightarrow>
            hasContent e platform cache i fs =
              (if code err = Some ''ENOENT'' then Inr (JBool False)
               else if code err = Some ''EPERM''
                    then (if platform = ''win32'' then Inr (JBool False) else Inl err)
               else Inr JUndefined, fs'))
       \<and> (\<forall>sri algo d err. parse e i = Inr sri \<longrightarrow> pickAlgorithm e sri = Inr algo \<longrightarrow>
            map_of sri algo = Some [d] \<longrightarrow> lstat_result fs (contentPath e cache d) = Inl err \<longrightarrow>
            hasContent e platform cache i fs =
              (if code err = Some ''ENOENT'' then Inr (JBool False)
               else if code err = Some ''EPERM''
                    then (if platform = ''win32'' then Inr (JBool False) else Inl err)
               else Inr JUndefined, fs)
          \<and> hasContentSync e platform cache i fs =
              (if code err = Some ''ENOENT'' then Inr (JBool False)
               else if code err = Some ''EPERM''
                    then (if platform = ''win32'' then Inr (JBool False) else Inl err)
               else Inr JUndefined, fs))
       \<and> (\<forall>cpath sri err. lstat_result fs cpath = Inl err \<longrightarrow>
            hasContentSync_access platform cpath sri fs =
              (if code err = Some ''ENOENT'' then Inr (JBool False)
               else if code err = Some ''EPERM''
                    then (if platform = ''win32'' then Inr (JBool False) else Inl err)
               else Inr JUndefined, fs))"
proof (intro conjI allI impI)
  fix err fs'
  assume "withContentSri e cache i hasContent_access fs = (Inl err, fs')"
  with assms show "hasContent e platform cache i fs =
              (if code err = Some ''ENOENT'' then Inr (JBool False)
               else if code err = Some ''EPERM''
                    then (if platform = ''win32'' then Inr (JBool False) else Inl err)
               else Inr JUndefined, fs')"
    by (simp add: hasContent_def)
next
  fix sri algo d err
  assume h: "parse e i = Inr sri" "pickAlgorithm e sri = Inr algo" "map_of sri algo = Some [d]"
    and l: "lstat_result fs (contentPath e cache d) = Inl err"
  from assms l show "hasContent e platform cache i fs =
              (if code err = Some ''ENOENT'' then Inr (JBool False)
               else if code err = Some ''EPERM''
                    then (if platform = ''win32'' then Inr (JBool False) else Inl err)
               else Inr JUndefined, fs)"
    by (simp add: hasContent_def withContentSri_single [OF h] hasContent_access_def)
  from assms l show "hasContentSync e platform cache i fs =
              (if code err = Some ''ENOENT'' then Inr (JBool False)
               else if code err = Some ''EPERM''
                    then (if platform = ''win32'' then Inr (JBool False) else Inl err)
               else Inr JUndefined, fs)"
    by (simp add: hasContentSync_def withContentSriSync_single [OF h] hasContentSync_access_def)
next
  fix cpath sri err
  assume "lstat_result fs cpath = Inl err"
  then show "hasContentSync_access platform cpath sri fs =
              (if code err = Some ''ENOENT'' then Inr (JBool False)
               else if code err = Some ''EPERM''
                    then (if platform = ''win32'' then Inr (JBool False) else Inl err)
               else Inr JUndefined, fs)"
    by (simp add: hasContentSync_access_def)
qed

theorem hasContent_error_policy_witness:
  "hasContent ex_env ''linux'' ''/c'' (SriHash hA) (failing_store enoent) =
     (Inr (JBool False), failing_store enoent)
   \<and> hasContentSync ex_env ''linux'' ''/c'' (SriHash hA) (failing_store enoent) =
     (Inr (JBool False), failing_store enoent)
   \<and> hasContent ex_env ''win32'' ''/c'' (SriHash hA) (failing_store eperm) =
     (Inr (JBool False), failing_store eperm)
   \<and> hasContentSync ex_env ''win32'' ''/c'' (SriHash hA) (failing_store eperm) =
     (Inr (JBool False), failing_store eperm)
   \<and> hasContent ex_env ''linux'' ''/c'' (SriHash hA) (failing_store eperm) =
     (Inl eperm, failing_store eperm)
   \<and> hasContentSync ex_env ''linux'' ''/c'' (SriHash hA) (failing_store eperm) =
     (Inl eperm, failing_store eperm)
   \<and> hasContent ex_env ''linux'' ''/c'' (SriHash hA) (failing_store eacces) =
     (Inr JUndefined, failing_store eacces)
   \<and> hasContentSync_access ''linux'' ''/c/aaaa'' hA (failing_store eacces) =
     (Inr JUndefined, failing_store eacces)
   \<and> hasContent ex_env ''linux'' ''/c'' ex_two (store_with [1, 2, 3]) =
     (Inr (JContent 3 hA \<lparr>st_size = 3\<rparr>), store_with [1, 2, 3])"
proof -
  have t: "integrity_truthy (SriHash hA)" by simp
  have t2: "integrity_truthy ex_two" by (simp add: ex_two_def)
  note T = hasContent_error_policy [OF t, of ex_env "''/c''" _ _,
      THEN conjunct2, THEN conjunct1, rule_format, OF hA_resolves]
  have "hasContent ex_env ''linux'' ''/c'' ex_two (store_with [1, 2, 3]) =
     (Inr (JContent 3 hA \<lparr>st_size = 3\<rparr>), store_with [1, 2, 3])"
    using t2
    by (simp add: hasContent_def withContentSri_multi [OF ex_two_resolves]
        hasContent_access_def then_results_def catch_candidate_def)
  moreover have "hasContentSync_access ''linux'' ''/c/aaaa'' hA (failing_store eacces) =
     (Inr JUndefined, failing_store eacces)"
    using hasContent_error_policy [OF t, of ex_env "''/c''" "failing_store eacces" "''linux''",
      THEN conjunct2, THEN conjunct2, rule_format, of "''/c/aaaa''" eacces hA]
    by simp
  ultimately show ?thesis
    using T [of "failing_store enoent" enoent "''linux''"]
      T [of "failing_store eperm" eperm "''win32''"]
      T [of "failing_store eperm" eperm "''linux''"]
      T [of "failing_store eacces" eacces "''linux''"]
    by simp
qed


section \<open>Properties of the streaming read\<close>

text \<open>
  C7. The streaming read returns the stream and throws nothing, for every input; a
  failure of the parser, of the resolution, of the stat, of the read or of the
  verification is an error event on the returned stream.
\<close>

theorem readStream_errors_on_stream:
  "\<not> isl (readStream e cache i opts fs)
   \<and> (\<forall>err. parse e i = Inl err \<longrightarrow> readStream e cache i opts fs = Inr [ErrorEvent err])
   \<and> (\<forall>err. fst (withContentSri e cache i readStream_access fs) = Inl err \<longrightarrow>
         readStream e cache i opts fs = Inr [ErrorEvent err])
   \<and> (\<forall>sri algo d err. parse e i = Inr sri \<longrightarrow> pickAlgorithm e sri = Inr algo \<longrightarrow>
         map_of sri algo = Some [d] \<longrightarrow> lstat_result fs (contentPath e cache d) = Inl err \<longrightarrow>
         readStream e cache i opts fs = Inr [ErrorEvent err])
   \<and> (\<forall>cpath sri stat err. fst (withContentSri e cache i readStream_access fs) =
           Inr (JResolved cpath sri stat) \<longrightarrow> file_result fs cpath = Inl err \<longrightarrow>
         readStream e cache i opts fs = Inr [ErrorEvent err])
   \<and> (\<forall>cpath sri stat data err. fst (withContentSri e cache i readStream_access fs) =
           Inr (JResolved cpath sri stat) \<longrightarrow> file_result fs cpath = Inr data \<longrightarrow>
         integrityStream e sri (size_opt opts) data = Some err \<longrightarrow>
         readStream e cache i opts fs = Inr [Data data, ErrorEvent err])"
proof (intro conjI allI impI)
  show "\<not> isl (readStream e cache i opts fs)"
    by (simp add: readStream_def)
next
  fix err
  assume "parse e i = Inl err"
  then show "readStream e cache i opts fs = Inr [ErrorEvent err]"
    by (simp add: readStream_def withContentSri_parse_error)
next
  fix err
  assume "fst (withContentSri e cache i readStream_access fs) = Inl err"
  then show "readStream e cache i opts fs = Inr [ErrorEvent err]"
    by (simp add: readStream_def)
next
  fix sri algo d err
  assume h: "parse e i = Inr sri" "pickAlgorithm e sri = Inr algo" "map_of sri algo = Some [d]"
    and "lstat_result fs (contentPath e cache d) = Inl err"
  then show "readStream e cache i opts fs = Inr [ErrorEvent err]"
    by (simp add: readStream_def withContentSri_single [OF h] readStream_access_def)
next
  fix cpath sri stat err
  assume "fst (withContentSri e cache i readStream_access fs) = Inr (JResolved cpath sri stat)"
    and "file_result fs cpath = Inl err"
  then show "readStream e cache i opts fs = Inr [ErrorEvent err]"
    by (simp add: readStream_def pipe_def)
next
  fix cpath sri stat data err
  assume "fst (withContentSri e cache i readStream_access fs) = Inr (JResolved cpath sri stat)"
    and "file_result fs cpath = Inr data"
    and "integrityStream e sri (size_opt opts) data = Some err"
  then show "readStream e cache i opts fs = Inr [Data data, ErrorEvent err]"
    by (simp add: readStream_def pipe_def)
qed

theorem readStream_errors_on_stream_witness:
  "readStream ex_env ''/c'' (SriString ''garbage'') \<lparr>size_opt = OptUndefined\<rparr> (store_with [1, 2, 3]) =
     Inr [ErrorEvent (Error ''malformed integrity'')]
   \<and> readStream ex_env ''/c'' (SriHash hA) \<lparr>size_opt = OptUndefined\<rparr> (failing_store eacces) =
     Inr [ErrorEvent eacces]
   \<and> readStream ex_env ''/c'' ex_two \<lparr>size_opt = OptUndefined\<rparr> (failing_store eacces) =
     Inr [ErrorEvent eacces]
   \<and> readStream ex_env ''/c'' (SriHash hA) \<lparr>size_opt = OptUndefined\<rparr> (store_with [7, 8, 9]) =
     Inr [Data [7, 8, 9],
          ErrorEvent ((Error ''stream verification failed'')\<lparr>code := Some ''EINTEGRITY''\<rparr>)]"
proof -
  note T = readStream_errors_on_stream [of ex_env "''/c''" _ "\<lparr>size_opt = OptUndefined\<rparr>"]
  have a: "readStream ex_env ''/c'' (SriString ''garbage'') \<lparr>size_opt = OptUndefined\<rparr>
             (store_with [1, 2, 3]) = Inr [ErrorEvent (Error ''malformed integrity'')]"
    using T [of "SriString ''garbage''" "store_with [1, 2, 3]", THEN conjunct2, THEN conjunct1,
             rule_format, of "Error ''malformed integrity''"]
    by (simp add: parse_def)
  have b: "readStream ex_env ''/c'' (SriHash hA) \<lparr>size_opt = OptUndefined\<rparr> (failing_store eacces) =
     Inr [ErrorEvent eacces]"
    using T [of "SriHash hA" "failing_store eacces", THEN conjunct2, THEN conjunct2, THEN conjunct2,
             THEN conjunct1, rule_format, OF hA_resolves, of eacces]
    by simp
  have c: "readStream ex_env ''/c'' ex_two \<lparr>size_opt = OptUndefined\<rparr> (failing_store eacces) =
     Inr [ErrorEvent eacces]"
    using T [of ex_two "failing_store eacces", THEN conjunct2, THEN conjunct2,
             THEN conjunct1, rule_format, of eacces]
    by (simp add: withContentSri_multi [OF ex_two_resolves] readStream_access_def
        then_results_def catch_candidate_def)
  have d: "readStream ex_env ''/c'' (SriHash hA) \<lparr>size_opt = OptUndefined\<rparr> (store_with [7, 8, 9]) =
     Inr [Data [7, 8, 9],
          ErrorEvent ((Error ''stream verification failed'')\<lparr>code := Some ''EINTEGRITY''\<rparr>)]"
    using T [of "SriHash hA" "store_with [7, 8, 9]", THEN conjunct2, THEN conjunct2, THEN conjunct2,
             THEN conjunct2, THEN conjunct2, rule_format,
             of "''/c/aaaa''" hA "\<lparr>st_size = 3\<rparr>" "[7, 8, 9]"]
    by (simp add: readStream_access_def)
  from a b c d show ?thesis by blast
qed

section \<open>Properties of the copy\<close>






text \<open>The resolvers use the parser, the preference, the string form and the path mapper only.\<close>

lemma parse_verifiers_update [simp]:
  "parse (e\<lparr>checkData := c, integrityStream := g\<rparr>) i = parse e i"
  by (simp add: parse_def split: sri_input.splits)

lemma pickAlgorithm_verifiers_update [simp]:
  "pickAlgorithm (e\<lparr>checkData := c, integrityStream := g\<rparr>) sri = pickAlgorithm e sri"
  by (simp add: pickAlgorithm_def split: list.splits)

lemma catch_candidate_verifiers_update [simp]:
  "catch_candidate (e\<lparr>checkData := c, integrityStream := g\<rparr>) sri r = catch_candidate e sri r"
  by (simp add: catch_candidate_def split: sum.splits)






lemma store_both_simps [simp]:
  "file_result (store_both a b) ''/c/aaaa'' = Inr a"
  "file_result (store_both a b) ''/c/bbbb'' = Inr b"
  "write_error (store_both a b) p = None"
  by (simp_all add: store_both_def)





end
